theory Spec2Isabelle
  imports Complex_Main "HOL-Library.Sublist"
begin

section \<open>JavaScript values used by the components\<close>

text \<open>
  The repository under verification is the Next.js front end of the fine-tuning platform.
  Server payloads arrive as JSON, so every \<open>number\<close> is a finite value and is modelled
  as a rational; an index kept in component state is an \<open>int\<close>.  A field typed
  \<open>string | null\<close> (or an optional field) is an \<open>option\<close>.

  JavaScript's \<open>a && b\<close> and \<open>a || b\<close> test \<^emph>\<open>truthiness\<close>: for a nullable string
  both \<open>null\<close> and the empty string are falsy.
\<close>

definition truthy :: "string option \<Rightarrow> bool" where
  "truthy s = (case s of None \<Rightarrow> False | Some t \<Rightarrow> t \<noteq> [])"

text \<open>\<open>a || d\<close> for a nullable string \<open>a\<close> and a string literal \<open>d\<close>.\<close>

definition or_default :: "string option \<Rightarrow> string \<Rightarrow> string" where
  "or_default s d = (case s of None \<Rightarrow> d | Some t \<Rightarrow> if t = [] then d else t)"

text \<open>\<open>String.prototype.endsWith\<close> and \<open>String.prototype.includes\<close>.\<close>

definition endsWith :: "string \<Rightarrow> string \<Rightarrow> bool" where
  "endsWith s suf = (length suf \<le> length s \<and> drop (length s - length suf) s = suf)"



section \<open>Errors delivered by the HTTP client\<close>

text \<open>
  A rejected axios call carries \<open>err.response?.status\<close> and
  \<open>err.response?.data?.detail\<close>; each link of the optional chain may be absent.
\<close>

record response_data =
  detail :: "string option"

record axios_response =
  http_status :: int
  data :: "response_data option"

record axios_error =
  response :: "axios_response option"


text \<open>\<open>err.response?.data?.detail\<close>\<close>

definition response_detail :: "axios_error \<Rightarrow> string option" where
  "response_detail err =
     (case response err of
        None \<Rightarrow> None
      | Some r \<Rightarrow> (case data r of None \<Rightarrow> None | Some d \<Rightarrow> detail d))"

datatype 'a http_result = Resolved 'a | Rejected axios_error

section \<open>components/TrainingProgress.tsx\<close>

record LogEntry =
  step :: rat
  loss :: rat
  epoch :: rat
  timestamp :: string

text \<open>
  The \<open>config\<close> field (typed \<open>any\<close>) only feeds \<open>totalSteps\<close>, which the component
  computes and never renders; it is left out of the record.
\<close>

record TrainingJob =
  id_job :: int
  dataset_id :: int
  status :: string
  model_path :: "string option"
  training_logs :: "LogEntry list option"
  started_at :: "string option"
  completed_at :: "string option"
  error_message :: "string option"

record TrainingProgress_state =
  job :: "TrainingJob option"
  loading_job :: bool

text \<open>What the status card, the chart and the action card show for a job.\<close>

record job_view =
  heading_job :: int
  heading_dataset :: int
  status_badge_class :: string
  status_badge_text :: string
  error_block :: "string option"
  current_stats :: "LogEntry option"
  started_line :: "string option"
  completed_line :: "string option"
  loss_chart :: "(rat \<times> rat) list option"
  evaluate_action :: "int option"

datatype 'v rendered = Placeholder string | View 'v

text \<open>\<open>const logs = job.training_logs || []\<close>\<close>

definition logs_of :: "TrainingJob \<Rightarrow> LogEntry list" where
  "logs_of j = (case training_logs j of None \<Rightarrow> [] | Some ls \<Rightarrow> ls)"

text \<open>\<open>logs[logs.length - 1]\<close>: \<open>undefined\<close> on the empty array.\<close>

definition latestLog :: "TrainingJob \<Rightarrow> LogEntry option" where
  "latestLog j = (if logs_of j = [] then None else Some (last (logs_of j)))"

definition chartData :: "TrainingJob \<Rightarrow> (rat \<times> rat) list" where
  "chartData j = map (\<lambda>l. (step l, loss l)) (logs_of j)"

definition status_class :: "string \<Rightarrow> string" where
  "status_class s =
     (if s = ''completed'' then ''bg-green-100 text-green-800''
      else if s = ''training'' then ''bg-blue-100 text-blue-800''
      else if s = ''failed'' then ''bg-red-100 text-red-800''
      else ''bg-gray-100 text-gray-800'')"

definition render_job :: "TrainingJob \<Rightarrow> job_view" where
  "render_job j =
     \<lparr> heading_job = id_job j,
       heading_dataset = dataset_id j,
       status_badge_class = status_class (status j),
       status_badge_text = status j,
       error_block = (if truthy (error_message j) then error_message j else None),
       current_stats = (if status j = ''training'' then latestLog j else None),
       started_line = (if truthy (started_at j) then started_at j else None),
       completed_line = (if truthy (completed_at j) then completed_at j else None),
       loss_chart = (if length (chartData j) > 0 then Some (chartData j) else None),
       evaluate_action =
         (if status j = ''completed'' \<and> truthy (model_path j) then Some (id_job j) else None) \<rparr>"

definition TrainingProgress :: "TrainingProgress_state \<Rightarrow> job_view rendered" where
  "TrainingProgress st =
     (if loading_job st then Placeholder ''Loading...''
      else case job st of
             None \<Rightarrow> Placeholder ''Training job not found''
           | Some j \<Rightarrow> View (render_job j))"

text \<open>A completed job whose stored artifact path is the empty string.\<close>

definition job_empty_path :: TrainingJob where
  "job_empty_path =
     \<lparr> id_job = 1, dataset_id = 1, status = ''completed'', model_path = Some [],
       training_logs = None, started_at = None, completed_at = None, error_message = None \<rparr>"

text \<open>A failed job whose stored message is the empty string.\<close>

definition job_empty_error :: TrainingJob where
  "job_empty_error =
     \<lparr> id_job = 2, dataset_id = 1, status = ''failed'', model_path = None,
       training_logs = None, started_at = None, completed_at = None, error_message = Some [] \<rparr>"

section \<open>components/ModelComparison.tsx and components/MetricsCard.tsx\<close>

record TestExample =
  prompt :: string
  base_output :: string
  finetuned_output :: string
  base_latency_ms :: rat
  finetuned_latency_ms :: rat
  base_tokens :: "rat option"
  finetuned_tokens :: "rat option"

record ModelMetrics =
  avg_latency_ms :: rat
  avg_length :: rat
  cost_per_1m_tokens :: rat

record Improvements =
  latency_improvement :: rat
  cost_improvement :: rat

record Metrics =
  base_model :: ModelMetrics
  finetuned_model :: ModelMetrics
  improvements :: Improvements

text \<open>
  The component guards both \<open>evaluation.test_results\<close> and \<open>evaluation.metrics\<close>
  against being absent, so both are optional in the snapshot it receives.
\<close>

record Evaluation =
  id_evaluation :: int
  training_job_id :: int
  test_results :: "TestExample list option"
  metrics :: "Metrics option"
  created_at :: string

datatype preferred = Base | Finetuned

record ModelComparison_state =
  evaluation :: "Evaluation option"
  currentIndex :: int
  loading :: bool
  rating :: "int \<Rightarrow> preferred option"

text \<open>One row of the summary table: the two cells and the green badge after the second.\<close>

record metric_row =
  row_label :: string
  base_cell :: rat
  finetuned_cell :: rat
  improvement_badge :: "rat option"

definition latency_row :: "Metrics \<Rightarrow> metric_row" where
  "latency_row m =
     \<lparr> row_label = ''Avg Latency'',
       base_cell = avg_latency_ms (base_model m),
       finetuned_cell = avg_latency_ms (finetuned_model m),
       improvement_badge =
         (if latency_improvement (improvements m) > 0
          then Some (latency_improvement (improvements m)) else None) \<rparr>"

definition cost_row :: "Metrics \<Rightarrow> metric_row" where
  "cost_row m =
     \<lparr> row_label = ''Cost/1M tokens'',
       base_cell = cost_per_1m_tokens (base_model m),
       finetuned_cell = cost_per_1m_tokens (finetuned_model m),
       improvement_badge =
         (if cost_improvement (improvements m) > 0
          then Some (cost_improvement (improvements m)) else None) \<rparr>"

definition length_row :: "Metrics \<Rightarrow> metric_row" where
  "length_row m =
     \<lparr> row_label = ''Avg Length'',
       base_cell = avg_length (base_model m),
       finetuned_cell = avg_length (finetuned_model m),
       improvement_badge = None \<rparr>"

definition summary_metrics :: "Metrics \<Rightarrow> metric_row list" where
  "summary_metrics m = [latency_row m, cost_row m, length_row m]"


text \<open>
  The side-by-side panel of one example.  The cost line of each model is a double-precision
  product formatted by \<open>toFixed(4)\<close> and is not part of this view.
\<close>

record example_view =
  shown_prompt :: string
  shown_base_output :: string
  shown_base_latency :: rat
  base_button_selected :: bool
  shown_finetuned_output :: string
  shown_finetuned_latency :: rat
  finetuned_button_selected :: bool

record nav_view =
  previous_disabled :: bool
  position_number :: int
  position_total :: nat
  next_disabled :: bool

record comparison_view =
  summary :: "metric_row list option"
  example :: example_view
  navigation :: nav_view

text \<open>
  \<open>evaluation.test_results[currentIndex]\<close> is \<open>undefined\<close> outside the array, and reading
  a property of it raises a \<open>TypeError\<close>.
\<close>

datatype render_error = TypeError

definition currentExample :: "TestExample list \<Rightarrow> int \<Rightarrow> TestExample option" where
  "currentExample rs i = (if 0 \<le> i \<and> i < int (length rs) then Some (rs ! nat i) else None)"

definition render_example :: "(int \<Rightarrow> preferred option) \<Rightarrow> int \<Rightarrow> TestExample \<Rightarrow> example_view" where
  "render_example r i ex =
     \<lparr> shown_prompt = prompt ex,
       shown_base_output = base_output ex,
       shown_base_latency = base_latency_ms ex,
       base_button_selected = (r i = Some Base),
       shown_finetuned_output = finetuned_output ex,
       shown_finetuned_latency = finetuned_latency_ms ex,
       finetuned_button_selected = (r i = Some Finetuned) \<rparr>"

definition render_navigation :: "TestExample list \<Rightarrow> int \<Rightarrow> nav_view" where
  "render_navigation rs i =
     \<lparr> previous_disabled = (i = 0),
       position_number = i + 1,
       position_total = length rs,
       next_disabled = (i = int (length rs) - 1) \<rparr>"

definition ModelComparison :: "ModelComparison_state \<Rightarrow> render_error + comparison_view rendered" where
  "ModelComparison st =
     (if loading st then Inr (Placeholder ''Loading evaluation...'')
      else case evaluation st of
        None \<Rightarrow> Inr (Placeholder ''Evaluation in progress or no results yet...'')
      | Some ev \<Rightarrow>
         (case test_results ev of
            None \<Rightarrow> Inr (Placeholder ''Evaluation in progress or no results yet...'')
          | Some rs \<Rightarrow>
             if length rs = 0 then Inr (Placeholder ''Evaluation in progress or no results yet...'')
             else case currentExample rs (currentIndex st) of
                    None \<Rightarrow> Inl TypeError
                  | Some ex \<Rightarrow>
                      Inr (View \<lparr> summary = map_option summary_metrics (metrics ev),
                                  example = render_example (rating st) (currentIndex st) ex,
                                  navigation = render_navigation rs (currentIndex st) \<rparr>)))"

text \<open>The two navigation handlers: \<open>Math.max(0, currentIndex - 1)\<close> and
  \<open>Math.min(evaluation.test_results.length - 1, currentIndex + 1)\<close>.\<close>

definition previous_index :: "int \<Rightarrow> int" where
  "previous_index i = max 0 (i - 1)"

definition next_index :: "nat \<Rightarrow> int \<Rightarrow> int" where
  "next_index n i = min (int n - 1) (i + 1)"

text \<open>The body of the POST to \<open>/api/evaluation/{id}/rate\<close>.\<close>

record rating_request =
  evaluation_id :: int
  example_index :: int
  preferred_model :: preferred

text \<open>
  \<open>handleRating\<close>: nothing happens without an evaluation; otherwise the request is posted
  and the local rating map is updated only when the call resolves.  \<open>post\<close> tells whether
  the server accepted the request.
\<close>

definition handleRating ::
  "int \<Rightarrow> (rating_request \<Rightarrow> bool) \<Rightarrow> ModelComparison_state \<Rightarrow> preferred
     \<Rightarrow> rating_request option \<times> ModelComparison_state" where
  "handleRating evaluationId post st p =
     (case evaluation st of
        None \<Rightarrow> (None, st)
      | Some ev \<Rightarrow>
          let req = \<lparr> evaluation_id = evaluationId, example_index = currentIndex st,
                      preferred_model = p \<rparr>
          in if post req
             then (Some req, st\<lparr> rating := (rating st)(currentIndex st := Some p) \<rparr>)
             else (Some req, st))"

section \<open>app/evaluation/[id]/page.tsx\<close>



record EvaluationPage_state =
  evaluationId :: "int option"
  loading_page :: bool
  error :: "string option"







section \<open>app/datasets/page.tsx\<close>

text \<open>The \<open>validation_report\<close> field (typed \<open>any\<close>) is not read by the page.\<close>

record Dataset =
  id_dataset :: int
  name :: string
  num_examples :: "rat option"
  validation_status :: "string option"
  created_at_dataset :: string

datatype row_action = Train int | Delete int

definition row_actions :: "Dataset \<Rightarrow> row_action list" where
  "row_actions d =
     (if validation_status d = Some ''valid'' then [Train (id_dataset d)] else [])
     @ [Delete (id_dataset d)]"

datatype page_effect = GoToTraining int | Alert string

definition handleStartTraining :: "int http_result \<Rightarrow> page_effect" where
  "handleStartTraining res =
     (case res of
        Resolved i \<Rightarrow> GoToTraining i
      | Rejected err \<Rightarrow> Alert (or_default (response_detail err) ''Failed to start training''))"

section \<open>components/DatasetUpload.tsx\<close>




















section \<open>The core behind the HTTP interface\<close>

text \<open>
  The evaluation engine, the rating store and the training engine run in the Python back
  end, which is not among the sources under verification.  The operations the pages call
  are modelled here from the specification of the core.
\<close>

text \<open>
  Modelled from the spec: the two kinds of the error taxonomy (section 7) that the
  operations below raise; the back end's error types are missing.
\<close>

datatype core_error = PreconditionError | RangeError





text \<open>
  Modelled from the spec: the stored Evaluation of the data model (section 3), with its
  TestResults, its aggregated Metrics and the sparse mapping from example index to
  preference; the persistent store is missing.
\<close>

record EvaluationRecord =
  job_ref :: int
  results :: "TestExample list"
  aggregated :: Metrics
  preferences :: "int \<Rightarrow> preferred option"

text \<open>
  Modelled from the spec: \<open>rate(evaluationId, exampleIndex, preferredModel)\<close> (section
  4.4), applied to the evaluation the identity names; the rating endpoint is missing.
\<close>

definition rate :: "EvaluationRecord \<Rightarrow> int \<Rightarrow> preferred \<Rightarrow> core_error + EvaluationRecord" where
  "rate ev exampleIndex preferredModel =
     (if 0 \<le> exampleIndex \<and> exampleIndex < int (length (results ev))
      then Inr (ev\<lparr> preferences := (preferences ev)(exampleIndex := Some preferredModel) \<rparr>)
      else Inl RangeError)"

text \<open>
  Modelled from the spec: \<open>startTraining(datasetId, config?)\<close> (section 6), which "fails
  with \<open>PreconditionError\<close> if the dataset is not \<open>valid\<close>" and otherwise creates a queued
  job for the dataset; the training endpoint is missing.
\<close>

definition startTraining :: "Dataset \<Rightarrow> int \<Rightarrow> core_error + TrainingJob" where
  "startTraining d jobId =
     (if validation_status d \<noteq> Some ''valid'' then Inl PreconditionError
      else Inr \<lparr> id_job = jobId, dataset_id = id_dataset d, status = ''queued'',
                 model_path = None, training_logs = None, started_at = None,
                 completed_at = None, error_message = None \<rparr>)"

section \<open>A comparison session against the rating store\<close>

text \<open>
  The comparison view after its evaluation has been fetched, driven by the user's clicks,
  with the rating store of the core answering the POSTs of \<open>handleRating\<close>.  A disabled
  button does not fire its handler.
\<close>

definition accepts :: "EvaluationRecord \<Rightarrow> rating_request \<Rightarrow> bool" where
  "accepts ev r =
     (case rate ev (example_index r) (preferred_model r) of Inl _ \<Rightarrow> False | Inr _ \<Rightarrow> True)"

text \<open>\<open>evaluation.test_results\<close> as the view reads it.\<close>

definition shown_results :: "ModelComparison_state \<Rightarrow> TestExample list" where
  "shown_results st =
     (case evaluation st of
        None \<Rightarrow> []
      | Some ev \<Rightarrow> (case test_results ev of None \<Rightarrow> [] | Some rs \<Rightarrow> rs))"

definition click_previous :: "ModelComparison_state \<Rightarrow> ModelComparison_state" where
  "click_previous st =
     (if previous_disabled (render_navigation (shown_results st) (currentIndex st)) then st
      else st\<lparr> currentIndex := previous_index (currentIndex st) \<rparr>)"

definition click_next :: "ModelComparison_state \<Rightarrow> ModelComparison_state" where
  "click_next st =
     (if next_disabled (render_navigation (shown_results st) (currentIndex st)) then st
      else st\<lparr> currentIndex := next_index (length (shown_results st)) (currentIndex st) \<rparr>)"

datatype user_action = Previous | Next | Better preferred

record session =
  ui :: ModelComparison_state
  store :: EvaluationRecord
  posted :: "rating_request list"
  refused :: "core_error list"

definition click_better :: "int \<Rightarrow> session \<Rightarrow> preferred \<Rightarrow> session" where
  "click_better eid s p =
     (case handleRating eid (accepts (store s)) (ui s) p of
        (None, st') \<Rightarrow> s\<lparr> ui := st' \<rparr>
      | (Some r, st') \<Rightarrow>
          (case rate (store s) (example_index r) (preferred_model r) of
             Inl e \<Rightarrow> s\<lparr> ui := st', posted := posted s @ [r], refused := refused s @ [e] \<rparr>
           | Inr ev' \<Rightarrow> s\<lparr> ui := st', store := ev', posted := posted s @ [r] \<rparr>))"

fun click :: "int \<Rightarrow> session \<Rightarrow> user_action \<Rightarrow> session" where
  "click eid s Previous = s\<lparr> ui := click_previous (ui s) \<rparr>"
| "click eid s Next = s\<lparr> ui := click_next (ui s) \<rparr>"
| "click eid s (Better p) = click_better eid s p"

text \<open>\<open>useState(0)\<close> for the index, an empty rating map, and the fetched evaluation.\<close>

definition initial_session :: "Evaluation \<Rightarrow> EvaluationRecord \<Rightarrow> session" where
  "initial_session ev stored =
     \<lparr> ui = \<lparr> evaluation = Some ev, currentIndex = 0, loading = False, rating = (\<lambda>_. None) \<rparr>,
       store = stored, posted = [], refused = [] \<rparr>"

definition index_in_range :: "nat \<Rightarrow> int \<Rightarrow> bool" where
  "index_in_range n i = (0 \<le> i \<and> i < int n)"

definition session_ok :: "nat \<Rightarrow> session \<Rightarrow> bool" where
  "session_ok n s =
     (index_in_range n (currentIndex (ui s))
      \<and> length (shown_results (ui s)) = n
      \<and> length (results (store s)) = n
      \<and> list_all (\<lambda>r. index_in_range n (example_index r)) (posted s)
      \<and> refused s = [])"

section \<open>Concrete inputs\<close>


definition example_a :: TestExample where
  "example_a = \<lparr> prompt = ''p1'', base_output = ''b1'', finetuned_output = ''f1'',
                  base_latency_ms = 120, finetuned_latency_ms = 150,
                  base_tokens = Some 40, finetuned_tokens = Some 35 \<rparr>"

definition example_b :: TestExample where
  "example_b = \<lparr> prompt = ''p2'', base_output = ''b2'', finetuned_output = ''f2'',
                  base_latency_ms = 100, finetuned_latency_ms = 90,
                  base_tokens = None, finetuned_tokens = Some 12 \<rparr>"

definition metrics_slower :: Metrics where
  "metrics_slower =
     \<lparr> base_model = \<lparr> avg_latency_ms = 110, avg_length = 40, cost_per_1m_tokens = 2 \<rparr>,
       finetuned_model = \<lparr> avg_latency_ms = 120, avg_length = 24, cost_per_1m_tokens = 1 \<rparr>,
       improvements = \<lparr> latency_improvement = - 9, cost_improvement = 50 \<rparr> \<rparr>"

definition record_two :: EvaluationRecord where
  "record_two = \<lparr> job_ref = 7, results = [example_a, example_b], aggregated = metrics_slower,
                   preferences = (\<lambda>_. None) \<rparr>"

definition record_fifty :: EvaluationRecord where
  "record_fifty = \<lparr> job_ref = 7, results = replicate 50 example_a, aggregated = metrics_slower,
                     preferences = (\<lambda>_. None) \<rparr>"

definition evaluation_two :: Evaluation where
  "evaluation_two = \<lparr> id_evaluation = 1, training_job_id = 7,
                       test_results = Some [example_a, example_b],
                       metrics = Some metrics_slower, created_at = ''2024-01-03'' \<rparr>"






definition error_not_found :: axios_error where
  "error_not_found =
     \<lparr> response = Some \<lparr> http_status = 404,
                          data = Some \<lparr> detail = Some ''Training job not found'' \<rparr> \<rparr> \<rparr>"

definition error_no_detail :: axios_error where
  "error_no_detail = \<lparr> response = Some \<lparr> http_status = 500, data = None \<rparr> \<rparr>"

definition dataset_invalid :: Dataset where
  "dataset_invalid = \<lparr> id_dataset = 3, name = ''bad.jsonl'', num_examples = Some 1,
                        validation_status = Some ''invalid'', created_at_dataset = ''2024-01-01'' \<rparr>"

definition dataset_valid :: Dataset where
  "dataset_valid = \<lparr> id_dataset = 4, name = ''good.jsonl'', num_examples = Some 60,
                      validation_status = Some ''valid'', created_at_dataset = ''2024-01-02'' \<rparr>"

section \<open>Properties of the training progress view\<close>

lemma truthy_iff: "truthy s \<longleftrightarrow> (\<exists>t. s = Some t \<and> t \<noteq> [])"
  by (cases s) (simp_all add: truthy_def)

text \<open>
  C6, as the claim states it, asks for the Evaluate Model action exactly when the status is
  \<open>completed\<close> and \<open>model_path\<close> is non-null.  The guard \<open>job.model_path && ...\<close> also
  rejects the empty path: for \<open>job_empty_path\<close> the path is non-null and the action is
  not offered.
\<close>

theorem evaluate_action_nonnull_counterexample:
  "\<not> (evaluate_action (render_job job_empty_path) \<noteq> None
        \<longleftrightarrow> status job_empty_path = ''completed'' \<and> model_path job_empty_path \<noteq> None)"
  by (simp add: render_job_def job_empty_path_def truthy_def)

text \<open>
  C6 (amended): for every training-job snapshot, the Evaluate Model action is offered if
  and only if the job's status is \<open>completed\<close> and its \<open>model_path\<close> is a non-null,
  non-empty string; when offered it links to the evaluation page of that very job, and a
  loading or missing job shows no action at all.
\<close>

theorem evaluate_action_iff:
  "(evaluate_action (render_job j) \<noteq> None
      \<longleftrightarrow> status j = ''completed'' \<and> (\<exists>p. model_path j = Some p \<and> p \<noteq> []))
   \<and> (evaluate_action (render_job j) = None \<or> evaluate_action (render_job j) = Some (id_job j))
   \<and> (TrainingProgress \<lparr> job = Some j, loading_job = False \<rparr> = View (render_job j))"
  by (simp add: render_job_def truthy_iff TrainingProgress_def)

text \<open>
  C7, as the claim states it, asks for the error block with the stored message whenever
  \<open>error_message\<close> is non-null.  The guard \<open>job.error_message && ...\<close> renders nothing for
  the empty message: \<open>job_empty_error\<close> has a non-null message and no error block.
\<close>

theorem error_block_nonnull_counterexample:
  "error_message job_empty_error \<noteq> None
   \<and> error_block (render_job job_empty_error) \<noteq> error_message job_empty_error"
  by (simp add: render_job_def job_empty_error_def truthy_def)

text \<open>
  C7 (amended): for every training-job snapshot the view renders the status badge with the
  job's status text; when \<open>error_message\<close> is a non-null, non-empty string the error block
  is rendered with exactly that message, and when it is null or empty no error block is
  rendered.
\<close>

theorem error_block_shown:
  "status_badge_text (render_job j) = status j
   \<and> error_block (render_job j) =
       (case error_message j of None \<Rightarrow> None | Some m \<Rightarrow> if m = [] then None else Some m)
   \<and> TrainingProgress \<lparr> job = Some j, loading_job = False \<rparr> = View (render_job j)"
  by (simp add: render_job_def truthy_def TrainingProgress_def split: option.splits)

section \<open>Properties of the string helpers\<close>



lemma endsWith_iff: "endsWith s suf \<longleftrightarrow> suffix suf s"
  unfolding endsWith_def suffix_def
  by (metis append_eq_conv_conj append_take_drop_id diff_add_inverse2 length_append le_add2 length_drop)


section \<open>Properties of the comparison view\<close>


section \<open>Properties of the test split\<close>



section \<open>Properties of rating\<close>

lemma rate_in_range:
  "index_in_range (length (results ev)) i \<Longrightarrow>
     rate ev i p = Inr (ev\<lparr> preferences := (preferences ev)(i := Some p) \<rparr>)"
  by (simp add: rate_def index_in_range_def)

lemma rate_out_of_range:
  "\<not> index_in_range (length (results ev)) i \<Longrightarrow> rate ev i p = Inl RangeError"
  by (auto simp add: rate_def index_in_range_def)

lemma accepts_iff: "accepts ev r \<longleftrightarrow> index_in_range (length (results ev)) (example_index r)"
  by (cases "index_in_range (length (results ev)) (example_index r)")
     (simp_all add: accepts_def rate_in_range rate_out_of_range)

text \<open>
  C3: \<open>rate\<close> fails with \<open>RangeError\<close> when the index is outside
  \<open>[0, len(test_results))\<close>; otherwise it stores the preference under the index, leaves
  the test results and the aggregated Metrics as they were, is unchanged by a repetition of
  the same call, and a call with another preference replaces the stored one.  The
  component's local rating map follows the store: it is updated when the call is accepted
  and left alone when it is refused.
\<close>

theorem rate_upsert:
  "(\<not> index_in_range (length (results ev)) i \<longrightarrow> rate ev i p = Inl RangeError)
   \<and> (index_in_range (length (results ev)) i \<longrightarrow>
        (\<exists>ev'. rate ev i p = Inr ev'
           \<and> preferences ev' = (preferences ev)(i := Some p)
           \<and> aggregated ev' = aggregated ev \<and> results ev' = results ev
           \<and> rate ev' i p = Inr ev'
           \<and> (\<exists>ev''. rate ev' i q = Inr ev''
                 \<and> preferences ev'' = (preferences ev)(i := Some q)
                 \<and> aggregated ev'' = aggregated ev)))
   \<and> (\<not> index_in_range (length (results ev)) (currentIndex st) \<longrightarrow>
        snd (handleRating eid (accepts ev) st p) = st)
   \<and> (index_in_range (length (results ev)) (currentIndex st) \<and> evaluation st \<noteq> None \<longrightarrow>
        rating (snd (handleRating eid (accepts ev) st p)) = (rating st)(currentIndex st := Some p))"
proof -
  have a: "\<not> index_in_range (length (results ev)) i \<Longrightarrow> rate ev i p = Inl RangeError"
    by (rule rate_out_of_range)
  have b: "index_in_range (length (results ev)) i \<Longrightarrow>
        (\<exists>ev'. rate ev i p = Inr ev'
           \<and> preferences ev' = (preferences ev)(i := Some p)
           \<and> aggregated ev' = aggregated ev \<and> results ev' = results ev
           \<and> rate ev' i p = Inr ev'
           \<and> (\<exists>ev''. rate ev' i q = Inr ev''
                 \<and> preferences ev'' = (preferences ev)(i := Some q)
                 \<and> aggregated ev'' = aggregated ev))"
    by (simp add: rate_in_range)
  have c: "\<not> index_in_range (length (results ev)) (currentIndex st) \<Longrightarrow>
        snd (handleRating eid (accepts ev) st p) = st"
    by (simp add: handleRating_def Let_def accepts_iff split: option.splits)
  have d: "index_in_range (length (results ev)) (currentIndex st) \<Longrightarrow> evaluation st \<noteq> None \<Longrightarrow>
        rating (snd (handleRating eid (accepts ev) st p)) = (rating st)(currentIndex st := Some p)"
    by (auto simp add: handleRating_def Let_def accepts_iff split: option.splits)
  from a b c d show ?thesis by blast
qed

theorem rate_upsert_witness:
  "rate record_fifty 50 Finetuned = Inl RangeError
   \<and> rate record_fifty (- 1) Finetuned = Inl RangeError
   \<and> (\<exists>ev'. rate record_fifty 49 Finetuned = Inr ev'
         \<and> preferences ev' 49 = Some Finetuned \<and> preferences ev' 48 = None
         \<and> aggregated ev' = metrics_slower
         \<and> rate ev' 49 Finetuned = Inr ev')
   \<and> rating (snd (handleRating 1 (accepts record_two)
                    (ui (initial_session evaluation_two record_two)) Base)) 0 = Some Base"
  using rate_upsert [of record_fifty 50 Finetuned Base "ui (initial_session evaluation_two record_two)" 1]
        rate_upsert [of record_fifty "- 1" Finetuned Base "ui (initial_session evaluation_two record_two)" 1]
        rate_upsert [of record_fifty 49 Finetuned Base "ui (initial_session evaluation_two record_two)" 1]
        rate_upsert [of record_two 0 Base Base "ui (initial_session evaluation_two record_two)" 1]
  by (auto simp add: record_fifty_def record_two_def index_in_range_def initial_session_def)

section \<open>Properties of the evaluation page\<close>




section \<open>Properties of the datasets page\<close>

text \<open>
  C5, as the claim states it, asks for every failure of the start-training call to be shown
  as the server's detail message.  A rejection that carries no detail (a 500 without a
  JSON body) is shown as the generic text instead.
\<close>

theorem start_training_detail_counterexample:
  "response_detail error_no_detail = None
   \<and> handleStartTraining (Rejected error_no_detail) = Alert ''Failed to start training''"
  by (simp add: handleStartTraining_def response_detail_def error_no_detail_def or_default_def)

text \<open>
  C5 (amended): \<open>startTraining\<close> fails with \<open>PreconditionError\<close> when the dataset's
  validation status is not \<open>valid\<close>; the datasets page renders the Train action exactly
  for datasets whose \<open>validation_status\<close> equals \<open>valid\<close>, for which \<open>startTraining\<close>
  succeeds; every failure of the start-training call raises an alert with a non-empty text,
  which is the server's detail message when a non-empty one is present and the generic
  \<open>Failed to start training\<close> otherwise.
\<close>

theorem start_training_guarded:
  "(validation_status d \<noteq> Some ''valid'' \<longrightarrow> startTraining d k = Inl PreconditionError)
   \<and> ((\<exists>i. Train i \<in> set (row_actions d)) \<longleftrightarrow> validation_status d = Some ''valid'')
   \<and> (Train (id_dataset d) \<in> set (row_actions d) \<longrightarrow> (\<exists>j. startTraining d k = Inr j))
   \<and> (\<exists>text. handleStartTraining (Rejected err) = Alert text \<and> text \<noteq> [])
   \<and> (\<forall>m. response_detail err = Some m \<and> m \<noteq> [] \<longrightarrow>
          handleStartTraining (Rejected err) = Alert m)
   \<and> (response_detail err = None \<or> response_detail err = Some [] \<longrightarrow>
          handleStartTraining (Rejected err) = Alert ''Failed to start training'')"
  by (auto simp add: startTraining_def row_actions_def handleStartTraining_def or_default_def
        split: option.splits)

theorem start_training_guarded_witness:
  "startTraining dataset_invalid 9 = Inl PreconditionError
   \<and> Train 4 \<in> set (row_actions dataset_valid)
   \<and> (\<exists>j. startTraining dataset_valid 9 = Inr j)
   \<and> handleStartTraining (Rejected error_not_found) = Alert ''Training job not found''
   \<and> handleStartTraining (Rejected error_no_detail) = Alert ''Failed to start training''"
  using start_training_guarded [of dataset_invalid 9 error_not_found]
        start_training_guarded [of dataset_valid 9 error_no_detail]
  by (simp add: dataset_invalid_def dataset_valid_def row_actions_def
        response_detail_def error_not_found_def error_no_detail_def)

section \<open>Properties of navigation\<close>

lemma previous_index_in_range:
  "index_in_range n i \<Longrightarrow> index_in_range n (previous_index i)"
  by (auto simp add: index_in_range_def previous_index_def)

lemma next_index_in_range:
  "index_in_range n i \<Longrightarrow> index_in_range n (next_index n i)"
  by (auto simp add: index_in_range_def next_index_def)

lemma click_previous_ok:
  "index_in_range n (currentIndex st) \<Longrightarrow> index_in_range n (currentIndex (click_previous st))"
  by (simp add: click_previous_def previous_index_in_range)

lemma click_next_ok:
  "length (shown_results st) = n \<Longrightarrow> index_in_range n (currentIndex st)
     \<Longrightarrow> index_in_range n (currentIndex (click_next st))"
  by (auto simp add: click_next_def next_index_in_range)

lemma click_previous_results: "shown_results (click_previous st) = shown_results st"
  by (simp add: click_previous_def shown_results_def)

lemma click_next_results: "shown_results (click_next st) = shown_results st"
  by (simp add: click_next_def shown_results_def)

lemma click_better_ok:
  assumes "session_ok n s"
  shows "session_ok n (click_better eid s p)"
proof -
  from assms have n: "length (shown_results (ui s)) = n" "length (results (store s)) = n"
    and i: "index_in_range n (currentIndex (ui s))"
    and rest: "list_all (\<lambda>r. index_in_range n (example_index r)) (posted s)" "refused s = []"
    by (simp_all add: session_ok_def)
  from i have "0 < n" by (simp add: index_in_range_def)
  with n(1) obtain ev where ev: "evaluation (ui s) = Some ev"
    by (cases "evaluation (ui s)") (simp_all add: shown_results_def)
  have r: "rate (store s) (currentIndex (ui s)) p
           = Inr ((store s)\<lparr> preferences := (preferences (store s))(currentIndex (ui s) := Some p) \<rparr>)"
    using i n(2) by (simp add: rate_in_range)
  show ?thesis
    using ev r n i rest
    by (simp add: click_better_def handleRating_def Let_def accepts_def session_ok_def
        shown_results_def)
qed

lemma click_ok: "session_ok n s \<Longrightarrow> session_ok n (click eid s c)"
proof (cases c)
  case Previous
  assume "session_ok n s"
  then show ?thesis using Previous
    by (simp add: session_ok_def click_previous_ok click_previous_results)
next
  case Next
  assume "session_ok n s"
  then show ?thesis using Next
    by (simp add: session_ok_def click_next_ok click_next_results)
next
  case (Better p)
  assume "session_ok n s"
  then show ?thesis using Better by (simp add: click_better_ok)
qed

lemma clicks_ok: "session_ok n s \<Longrightarrow> session_ok n (foldl (click eid) s cs)"
  by (induction cs arbitrary: s) (simp_all add: click_ok)

lemma initial_session_ok:
  "test_results ev = Some rs \<Longrightarrow> rs \<noteq> [] \<Longrightarrow> length (results stored) = length rs
     \<Longrightarrow> session_ok (length rs) (initial_session ev stored)"
  by (simp add: session_ok_def initial_session_def shown_results_def index_in_range_def)

lemma render_ok:
  "index_in_range (length (shown_results st)) (currentIndex st) \<Longrightarrow> ModelComparison st \<noteq> Inl TypeError"
  by (auto simp add: ModelComparison_def currentExample_def shown_results_def index_in_range_def
      split: option.splits)

text \<open>
  C9: in a comparison session over a non-empty list of \<open>n\<close> test results, started at
  index 0, every sequence of Previous, Next and rating clicks keeps the current index within
  \<open>[0, n)\<close>; both handlers map \<open>[0, n)\<close> into itself and are the identity where their
  button is disabled; every rating request submitted carries an index within \<open>[0, n)\<close>,
  the store never answers \<open>RangeError\<close>, and the view never reads outside the list.
\<close>

theorem navigation_keeps_index_in_range:
  assumes "test_results ev = Some rs" and "rs \<noteq> []" and "length (results stored) = length rs"
  shows "index_in_range (length rs) (currentIndex (ui (foldl (click eid) (initial_session ev stored) cs)))
       \<and> list_all (\<lambda>r. index_in_range (length rs) (example_index r))
            (posted (foldl (click eid) (initial_session ev stored) cs))
       \<and> refused (foldl (click eid) (initial_session ev stored) cs) = []
       \<and> ModelComparison (ui (foldl (click eid) (initial_session ev stored) cs)) \<noteq> Inl TypeError
       \<and> (index_in_range (length rs) i \<longrightarrow>
            index_in_range (length rs) (previous_index i)
            \<and> index_in_range (length rs) (next_index (length rs) i))
       \<and> previous_index 0 = 0
       \<and> next_index (length rs) (int (length rs) - 1) = int (length rs) - 1"
proof -
  let ?s = "foldl (click eid) (initial_session ev stored) cs"
  have ok: "session_ok (length rs) ?s"
    using assms by (intro clicks_ok initial_session_ok)
  then have "ModelComparison (ui ?s) \<noteq> Inl TypeError"
    by (intro render_ok) (simp add: session_ok_def)
  moreover have "previous_index 0 = 0" by (simp add: previous_index_def)
  moreover have "next_index (length rs) (int (length rs) - 1) = int (length rs) - 1"
    by (simp add: next_index_def)
  ultimately show ?thesis
    using ok by (simp add: session_ok_def previous_index_in_range next_index_in_range)
qed

theorem navigation_keeps_index_in_range_witness:
  "test_results evaluation_two = Some [example_a, example_b]
   \<and> length (results record_two) = 2
   \<and> currentIndex (ui (foldl (click 1) (initial_session evaluation_two record_two)
        [Next, Next, Better Finetuned, Previous, Previous, Better Base])) = 0
   \<and> map example_index (posted (foldl (click 1) (initial_session evaluation_two record_two)
        [Next, Next, Better Finetuned, Previous, Previous, Better Base])) = [1, 0]
   \<and> refused (foldl (click 1) (initial_session evaluation_two record_two)
        [Next, Next, Better Finetuned, Previous, Previous, Better Base]) = []"
  using navigation_keeps_index_in_range [of evaluation_two "[example_a, example_b]" record_two 1
      "[Next, Next, Better Finetuned, Previous, Previous, Better Base]" 1]
  by (simp add: evaluation_two_def record_two_def initial_session_def click_previous_def
      click_next_def click_better_def handleRating_def accepts_def rate_def shown_results_def
      render_navigation_def previous_index_def next_index_def Let_def)

section \<open>Properties of the dataset upload\<close>















end
